theory Spec2Isabelle
  imports Complex_Main "HOL-Library.Multiset" "HOL-Library.Char_ord" "HOL-Library.List_Lexorder"
begin

section \<open>Values\<close>

text \<open>
  A JavaScript number held in client memory.  Finite values are modelled as reals: the
  rounding of IEEE doubles and their overflow to an infinity are not modelled.  The
  three non-finite values are kept, since \<open>parseFloat\<close> and division produce them.
\<close>

datatype jsnum = Num real | NaN | PosInf | NegInf

text \<open>
  A property of a JavaScript object, or a column of a parsed JSON row: it may be
  missing (\<open>undefined\<close>), \<open>null\<close>, or hold a value.
\<close>

datatype 'a js_field = Undefined | Null | Val 'a

text \<open>
  The six fields shared by \<open>ExtractedReceipt\<close> (services/gemini), by \<open>Receipt\<close> (types)
  and by the request body of \<open>POST /api/receipts\<close>.  The three layers differ only in
  the types their fields can hold, so the record is polymorphic: \<open>'s\<close> is the type of
  the four text fields, \<open>'n\<close> of \<open>amount\<close>, \<open>'t\<close> of \<open>tax\<close>.
\<close>

record ('s, 'n, 't) receipt_fields =
  merchant :: 's
  date :: 's
  amount :: 'n
  tax :: 't
  currency :: 's
  category :: 's

text \<open>\<open>interface ExtractedReceipt\<close>: \<open>tax?: number\<close> is optional, all else is required.\<close>

type_synonym ExtractedReceipt = "(string, jsnum, jsnum js_field) receipt_fields"

record ('s, 'n, 't, 'u) with_image = "('s, 'n, 't) receipt_fields" +
  image_url :: 'u

text \<open>
  The object \<open>{ ...formData, image_url: image }\<close> handed to \<open>onConfirm\<close>: the form's
  fields and the captured image.
\<close>

type_synonym ReceiptDraft = "(string, jsnum, jsnum js_field, string) with_image"

text \<open>
  A row of the table \<open>receipts\<close>, which is also a \<open>Receipt\<close> as the client receives it
  from \<open>GET /api/receipts\<close>.  The columns declared \<open>NOT NULL\<close> hold a value; \<open>tax\<close> and
  \<open>image_url\<close> may be \<open>null\<close>.  JSON has no NaN and no infinity, so the numbers are
  finite.  The interface \<open>Receipt\<close> does not declare \<open>tax\<close>, but the rows carry it
  and the list view reads it.  The column \<open>id\<close> is named \<open>id'\<close> here.
\<close>

record Receipt = "(string, real, real js_field, string js_field) with_image" +
  id' :: nat
  created_at :: string

section \<open>Aggregation (ReceiptListView)\<close>

text \<open>\<open>receipts.reduce((acc, r) => acc + r.amount, 0)\<close>, the constant \<open>total\<close> of the view.\<close>

definition total' :: "Receipt list \<Rightarrow> real" where
  "total' receipts = foldl (\<lambda>acc r. acc + amount r) 0 receipts"

text \<open>
  The reducer of \<open>totalTax\<close>: the stored tax when \<open>r.tax\<close> is neither \<open>undefined\<close> nor
  \<open>null\<close>, otherwise the 7% inclusive estimate.
\<close>

definition totalTax_step :: "real \<Rightarrow> Receipt \<Rightarrow> real" where
  "totalTax_step acc r =
     (case tax r of
        Val t \<Rightarrow> acc + t
      | Undefined \<Rightarrow> acc + (amount r - amount r / 1.07)
      | Null \<Rightarrow> acc + (amount r - amount r / 1.07))"

definition totalTax :: "Receipt list \<Rightarrow> real" where
  "totalTax receipts = foldl totalTax_step 0 receipts"

text \<open>
  JavaScript division of two finite numbers: dividing by zero is no fault, it yields
  NaN or an infinity.
\<close>

definition js_div :: "real \<Rightarrow> real \<Rightarrow> jsnum" where
  "js_div x y =
     (if y = 0 then (if x = 0 then NaN else if 0 < x then PosInf else NegInf)
      else Num (x / y))"

text \<open>\<open>receipts.length > 0 ? total / receipts.length : 0\<close>\<close>

definition avg :: "Receipt list \<Rightarrow> jsnum" where
  "avg receipts =
     (if 0 < length receipts then js_div (total' receipts) (real (length receipts))
      else Num 0)"

text \<open>
  \<open>receipts.slice(0, 5).reverse().map(r => ({ name: r.merchant, amount: r.amount }))\<close>;
  a chart entry is the pair of its \<open>name\<close> and its \<open>amount\<close>.
\<close>

definition chartData :: "Receipt list \<Rightarrow> (string \<times> real) list" where
  "chartData receipts = map (\<lambda>r. (merchant r, amount r)) (rev (take 5 receipts))"

subsection \<open>The aggregates as the specification words them\<close>

definition spec_taxFor :: "Receipt \<Rightarrow> real" where
  "spec_taxFor r = (case tax r of Val t \<Rightarrow> t | Undefined \<Rightarrow> amount r - amount r / 1.07
     | Null \<Rightarrow> amount r - amount r / 1.07)"

definition spec_taxEstimate :: "Receipt list \<Rightarrow> real" where
  "spec_taxEstimate rs = sum_list (map spec_taxFor rs)"

definition spec_total :: "Receipt list \<Rightarrow> real" where
  "spec_total rs = sum_list (map amount rs)"

definition spec_average :: "Receipt list \<Rightarrow> real" where
  "spec_average rs = (if length rs = 0 then 0 else spec_total rs / real (length rs))"

section \<open>The review form (ReviewDetailView)\<close>

subsection \<open>\<open>parseFloat\<close>\<close>

text \<open>
  The built-in \<open>parseFloat\<close>: leading white space is dropped, then the longest prefix
  that is a \<open>StrDecimalLiteral\<close> (a sign, then \<open>Infinity\<close>, or digits with an optional
  fraction and an optional complete exponent) is read; when there is no such prefix the
  result is NaN.  Strings are byte strings here, so only the ASCII white space is
  dropped.
\<close>

definition is_digit :: "char \<Rightarrow> bool" where
  "is_digit c = (CHR ''0'' \<le> c \<and> c \<le> CHR ''9'')"

definition is_space :: "char \<Rightarrow> bool" where
  "is_space c = (c = CHR '' '' \<or> c = CHR 0x09 \<or> c = CHR 0x0A \<or> c = CHR 0x0B
     \<or> c = CHR 0x0C \<or> c = CHR 0x0D)"

definition digits_val :: "string \<Rightarrow> nat" where
  "digits_val ds = foldl (\<lambda>n c. 10 * n + (of_char c - 48)) 0 ds"

definition pow10 :: "int \<Rightarrow> real" where
  "pow10 e = (if 0 \<le> e then 10 ^ nat e else 1 / 10 ^ nat (- e))"

text \<open>The value of the exponent part at the head of a string, 0 when there is none.\<close>

definition exponent_part :: "string \<Rightarrow> int" where
  "exponent_part s =
     (case s of
        [] \<Rightarrow> 0
      | c # r \<Rightarrow>
          if c = CHR ''e'' \<or> c = CHR ''E'' then
            (case r of
               [] \<Rightarrow> 0
             | d # r' \<Rightarrow>
                 if d = CHR ''-'' then - int (digits_val (takeWhile is_digit r'))
                 else if d = CHR ''+'' then int (digits_val (takeWhile is_digit r'))
                 else int (digits_val (takeWhile is_digit r)))
          else 0)"

definition unsigned_literal :: "string \<Rightarrow> jsnum" where
  "unsigned_literal u =
     (if take 8 u = ''Infinity'' then PosInf
      else
        let ip = takeWhile is_digit u;
            r1 = dropWhile is_digit u;
            dot = (case r1 of [] \<Rightarrow> False | c # r \<Rightarrow> c = CHR ''.'');
            fp = (if dot then takeWhile is_digit (tl r1) else []);
            r2 = (if dot then dropWhile is_digit (tl r1) else r1)
        in if ip = [] \<and> fp = [] then NaN
           else Num ((real (digits_val ip) + real (digits_val fp) / 10 ^ length fp)
                     * pow10 (exponent_part r2)))"

definition js_neg :: "jsnum \<Rightarrow> jsnum" where
  "js_neg x = (case x of Num r \<Rightarrow> Num (- r) | NaN \<Rightarrow> NaN | PosInf \<Rightarrow> NegInf
     | NegInf \<Rightarrow> PosInf)"

definition parseFloat :: "string \<Rightarrow> jsnum" where
  "parseFloat s =
     (case dropWhile is_space s of
        [] \<Rightarrow> NaN
      | c # r \<Rightarrow>
          if c = CHR ''-'' then js_neg (unsigned_literal r)
          else if c = CHR ''+'' then unsigned_literal r
          else unsigned_literal (c # r))"

text \<open>\<open>x || 0\<close> on a number: NaN and zero are falsy.\<close>

definition or_zero :: "jsnum \<Rightarrow> jsnum" where
  "or_zero x = (case x of Num r \<Rightarrow> if r = 0 then Num 0 else Num r | NaN \<Rightarrow> Num 0
     | PosInf \<Rightarrow> PosInf | NegInf \<Rightarrow> NegInf)"

subsection \<open>The form state\<close>

text \<open>
  The initial \<open>formData\<close>: \<open>initialData || { merchant: '', date: today, amount: 0,
  tax: 0, currency: 'INR', category: 'Other' }\<close>.  An object is truthy, \<open>null\<close> is not;
  \<open>today\<close> stands for \<open>new Date().toISOString().split('T')[0]\<close>.  The specification
  calls this \<open>seedForm\<close>.
\<close>

definition seedForm :: "string \<Rightarrow> ExtractedReceipt option \<Rightarrow> ExtractedReceipt" where
  "seedForm today initialData =
     (case initialData of
        Some x \<Rightarrow> x
      | None \<Rightarrow> \<lparr>merchant = '''', date = today, amount = Num 0, tax = Val (Num 0),
                 currency = ''INR'', category = ''Other''\<rparr>)"

text \<open>The \<open>onChange\<close> handlers of the six inputs; \<open>v\<close> is \<open>e.target.value\<close>.\<close>

definition onChange_merchant :: "ExtractedReceipt \<Rightarrow> string \<Rightarrow> ExtractedReceipt" where
  "onChange_merchant formData v = formData\<lparr>merchant := v\<rparr>"

definition onChange_date :: "ExtractedReceipt \<Rightarrow> string \<Rightarrow> ExtractedReceipt" where
  "onChange_date formData v = formData\<lparr>date := v\<rparr>"

definition onChange_currency :: "ExtractedReceipt \<Rightarrow> string \<Rightarrow> ExtractedReceipt" where
  "onChange_currency formData v = formData\<lparr>currency := v\<rparr>"

definition onChange_amount :: "ExtractedReceipt \<Rightarrow> string \<Rightarrow> ExtractedReceipt" where
  "onChange_amount formData v = formData\<lparr>amount := parseFloat v\<rparr>"

definition onChange_tax :: "ExtractedReceipt \<Rightarrow> string \<Rightarrow> ExtractedReceipt" where
  "onChange_tax formData v = formData\<lparr>tax := Val (or_zero (parseFloat v))\<rparr>"

definition onChange_category :: "ExtractedReceipt \<Rightarrow> string \<Rightarrow> ExtractedReceipt" where
  "onChange_category formData v = formData\<lparr>category := v\<rparr>"

text \<open>
  The argument of \<open>onConfirm\<close>, \<open>{ ...formData, image_url: image }\<close>: every property of
  the form is copied and the image is attached.  The specification calls this
  \<open>finalize\<close>.
\<close>

definition finalize :: "ExtractedReceipt \<Rightarrow> string \<Rightarrow> ReceiptDraft" where
  "finalize formData img =
     \<lparr>merchant = merchant formData, date = date formData, amount = amount formData,
      tax = tax formData, currency = currency formData, category = category formData,
      image_url = img\<rparr>"

section \<open>The capture workflow (App)\<close>

datatype AppState = SCANNING | REVIEW_DETAIL | LIST

text \<open>
  The state of \<open>App\<close> that the capture workflow reads and writes, and the asynchronous
  work that \<open>captureImage\<close> has left behind: \<open>extracting\<close> holds the image of every
  call of \<open>extractReceiptData\<close> that has not resolved yet (its progress interval is
  running), \<open>settling\<close> holds, for every armed 500 ms timeout, the image and the result
  its callback closes over, and \<open>saving\<close> counts the requests of \<open>saveReceipt\<close> that
  have not been answered.  The list of receipts that \<open>fetchReceipts\<close> refreshes plays no
  part in the workflow and is left out.
\<close>

record App =
  state :: AppState
  currentScan :: "(string \<times> ExtractedReceipt option) option"
  isScanning :: bool
  progress :: nat
  extracting :: "string list"
  settling :: "(string \<times> ExtractedReceipt option) list"
  saving :: nat

definition initial_App :: App where
  "initial_App = \<lparr>state = LIST, currentScan = None, isScanning = False, progress = 0,
     extracting = [], settling = [], saving = 0\<rparr>"

text \<open>
  What can happen: the user's clicks (\<open>Add\<close>, \<open>Close\<close>, \<open>Capture\<close> with the snapshot the
  canvas yields, \<open>Retake\<close>, \<open>Confirm\<close>), a tick of the progress interval, the resolution
  of the oldest outstanding extraction call with its result, the firing of the oldest
  armed timeout, and the answer to a request of \<open>saveReceipt\<close>, which is \<open>res.ok\<close> or
  not.
\<close>

datatype event =
    Add
  | Close
  | Capture string
  | Tick
  | Extracted "ExtractedReceipt option"
  | Settled
  | Retake
  | Confirm
  | Saved bool

text \<open>
  One event applied to the state; \<open>None\<close> when the event cannot happen there (the
  button is not rendered or is disabled, nothing is outstanding).  \<open>ScannerView\<close> is
  rendered in \<open>SCANNING\<close> only, its capture button is disabled while \<open>isScanning\<close>;
  \<open>ReviewDetailView\<close> is rendered in \<open>REVIEW_DETAIL\<close> when \<open>currentScan\<close> is set;
  \<open>ReceiptListView\<close> in \<open>LIST\<close>.  While \<open>ScannerView\<close> is rendered its video and canvas
  are there, so \<open>captureImage\<close> does not return early.  The continuation of
  \<open>captureImage\<close> after its \<open>await\<close>, the callback of its timeout and the continuation
  of \<open>saveReceipt\<close> test nothing of the state before they write.
\<close>

fun step :: "App \<Rightarrow> event \<Rightarrow> App option" where
  "step s Add =
     (if state s = LIST then Some (s\<lparr>state := SCANNING\<rparr>) else None)"
| "step s Close =
     (if state s = SCANNING then Some (s\<lparr>state := LIST\<rparr>) else None)"
| "step s (Capture base64) =
     (if state s = SCANNING \<and> \<not> isScanning s
      then Some (s\<lparr>isScanning := True, progress := 10,
                     extracting := extracting s @ [base64]\<rparr>)
      else None)"
| "step s Tick =
     (if extracting s \<noteq> [] then Some (s\<lparr>progress := min (progress s + 5) 85\<rparr>)
      else None)"
| "step s (Extracted extracted) =
     (case extracting s of
        [] \<Rightarrow> None
      | base64 # rest \<Rightarrow>
          Some (s\<lparr>progress := 100, extracting := rest,
                  settling := settling s @ [(base64, extracted)]\<rparr>))"
| "step s Settled =
     (case settling s of
        [] \<Rightarrow> None
      | scan # rest \<Rightarrow>
          Some (s\<lparr>currentScan := Some scan, isScanning := False,
                  state := REVIEW_DETAIL, settling := rest\<rparr>))"
| "step s Retake =
     (if state s = REVIEW_DETAIL \<and> currentScan s \<noteq> None
      then Some (s\<lparr>currentScan := None, state := SCANNING\<rparr>)
      else None)"
| "step s Confirm =
     (if state s = REVIEW_DETAIL \<and> currentScan s \<noteq> None
      then Some (s\<lparr>saving := Suc (saving s)\<rparr>)
      else None)"
| "step s (Saved ok) =
     (case saving s of
        0 \<Rightarrow> None
      | Suc n \<Rightarrow> Some (if ok then s\<lparr>state := LIST, saving := n\<rparr> else s\<lparr>saving := n\<rparr>))"

text \<open>A sequence of events, applied in order; \<open>None\<close> as soon as one cannot happen.\<close>

fun run :: "App \<Rightarrow> event list \<Rightarrow> App option" where
  "run s [] = Some s"
| "run s (e # es) = (case step s e of None \<Rightarrow> None | Some s' \<Rightarrow> run s' es)"

section \<open>The server\<close>

text \<open>
  The body of \<open>POST /api/receipts\<close> after \<open>express.json\<close>: every property may be
  missing or \<open>null\<close>; a property that is there holds a string or a number, as the
  declared interface has it.  Arrays, objects and booleans as property values are
  outside this model.
\<close>

type_synonym body =
  "(string js_field, real js_field, real js_field, string js_field) with_image"

text \<open>
  \<open>JSON.stringify(receipt)\<close> in \<open>saveReceipt\<close>, read back by \<open>express.json\<close>: a property
  that is \<open>undefined\<close> is left out, NaN and the infinities are written as \<open>null\<close>.
\<close>

definition json_number :: "jsnum \<Rightarrow> real js_field" where
  "json_number x = (case x of Num r \<Rightarrow> Val r | NaN \<Rightarrow> Null | PosInf \<Rightarrow> Null
     | NegInf \<Rightarrow> Null)"

definition request_body :: "ReceiptDraft \<Rightarrow> body" where
  "request_body receipt =
     \<lparr>merchant = Val (merchant receipt), date = Val (date receipt),
      amount = json_number (amount receipt),
      tax = (case tax receipt of Undefined \<Rightarrow> Undefined | Null \<Rightarrow> Null
             | Val x \<Rightarrow> json_number x),
      currency = Val (currency receipt), category = Val (category receipt),
      image_url = Val (image_url receipt)\<rparr>"

subsection \<open>The table\<close>

text \<open>
  The table \<open>receipts\<close>: its rows in the order of their insertion, and the largest
  \<open>id\<close> ever assigned, which \<open>AUTOINCREMENT\<close> keeps so that no \<open>id\<close> is used twice.
\<close>

record Database =
  rows :: "Receipt list"
  last_id :: nat

datatype error = SqliteError

text \<open>Sequencing of steps that may throw: the first error ends the computation.\<close>

definition and_then :: "error + 'a \<Rightarrow> ('a \<Rightarrow> error + 'b) \<Rightarrow> error + 'b" where
  "and_then r f = (case r of Inl e \<Rightarrow> Inl e | Inr x \<Rightarrow> f x)"

text \<open>
  The binding of one parameter by better-sqlite3: a number or a string is bound as it
  is, \<open>null\<close> and \<open>undefined\<close> are both bound as \<open>NULL\<close>.
\<close>

definition bind_value :: "'a js_field \<Rightarrow> 'a option" where
  "bind_value v = (case v of Undefined \<Rightarrow> None | Null \<Rightarrow> None | Val x \<Rightarrow> Some x)"

text \<open>A column declared \<open>NOT NULL\<close> refuses \<open>NULL\<close>; a nullable column keeps it.\<close>

definition not_null :: "'a option \<Rightarrow> error + 'a" where
  "not_null v = (case v of None \<Rightarrow> Inl SqliteError | Some x \<Rightarrow> Inr x)"

definition nullable :: "'a option \<Rightarrow> 'a js_field" where
  "nullable v = (case v of None \<Rightarrow> Null | Some x \<Rightarrow> Val x)"

text \<open>
  \<open>INSERT INTO receipts (merchant, date, amount, tax, currency, category, image_url)
  VALUES (?, ?, ?, ?, ?, ?, ?)\<close> run on seven arguments: the parameters are bound,
  then the row is checked against the \<open>NOT NULL\<close> columns and appended with the next
  \<open>id\<close>; \<open>now\<close> is \<open>CURRENT_TIMESTAMP\<close>.  The result is \<open>lastInsertRowid\<close> and the new
  table.  An error leaves the table as it was.
\<close>

definition run_insert ::
  "string \<Rightarrow> Database \<Rightarrow> string js_field \<Rightarrow> string js_field \<Rightarrow> real js_field \<Rightarrow>
   real js_field \<Rightarrow> string js_field \<Rightarrow> string js_field \<Rightarrow> string js_field \<Rightarrow>
   error + (nat \<times> Database)" where
  "run_insert now db a1 a2 a3 a4 a5 a6 a7 =
     and_then (not_null (bind_value a1)) (\<lambda>m.
     and_then (not_null (bind_value a2)) (\<lambda>d.
     and_then (not_null (bind_value a3)) (\<lambda>a.
     and_then (not_null (bind_value a5)) (\<lambda>c.
     and_then (not_null (bind_value a6)) (\<lambda>cat.
       let n = Suc (last_id db) in
       Inr (n, \<lparr>rows = rows db @
                   [\<lparr>merchant = m, date = d, amount = a, tax = nullable (bind_value a4),
                     currency = c, category = cat, image_url = nullable (bind_value a7),
                     id' = n, created_at = now\<rparr>],
                 last_id = n\<rparr>))))))"

subsection \<open>The routes\<close>

text \<open>\<open>currency || 'USD'\<close>: \<open>undefined\<close>, \<open>null\<close> and the empty string are falsy.\<close>

definition or_USD :: "string js_field \<Rightarrow> string" where
  "or_USD c = (case c of Undefined \<Rightarrow> ''USD'' | Null \<Rightarrow> ''USD''
     | Val s \<Rightarrow> if s = [] then ''USD'' else s)"

datatype response = Json_id nat | Status_500 string

text \<open>
  \<open>app.post("/api/receipts", ...)\<close>: the insert in a \<open>try\<close>; its \<open>catch\<close> answers 500.
\<close>

definition post_receipts :: "string \<Rightarrow> Database \<Rightarrow> body \<Rightarrow> response \<times> Database" where
  "post_receipts now db b =
     (case run_insert now db (merchant b) (date b) (amount b) (tax b)
             (Val (or_USD (currency b))) (category b) (image_url b) of
        Inr (n, db') \<Rightarrow> (Json_id n, db')
      | Inl e \<Rightarrow> (Status_500 ''Failed to save receipt'', db))"

text \<open>
  \<open>SELECT * FROM receipts ORDER BY date DESC\<close>.  The query names one sort key and no
  other, and SQL leaves the order of rows with equal keys open; so the answers of
  \<open>app.get("/api/receipts", ...)\<close> are described by a predicate: \<open>out\<close> is an answer when
  it holds the rows of the table, each as often as the table does, with the \<open>date\<close>
  column descending.  The column is \<open>TEXT\<close>: its values compare as byte strings.
\<close>

definition get_receipts :: "Database \<Rightarrow> Receipt list \<Rightarrow> bool" where
  "get_receipts db out =
     (mset out = mset (rows db) \<and> sorted_wrt (\<lambda>r r'. date r' \<le> date r) out)"

subsection \<open>The specification's words on the persistence gateway\<close>

text \<open>The invariants the specification states of a persisted record.\<close>

definition spec_invariants :: "Receipt \<Rightarrow> bool" where
  "spec_invariants r =
     (0 \<le> amount r
      \<and> (case tax r of Val t \<Rightarrow> t \<le> amount r | Undefined \<Rightarrow> True | Null \<Rightarrow> True)
      \<and> merchant r \<noteq> [])"

text \<open>
  The form \<open>YYYY-MM-DD\<close> that the data model gives a date: a year below 10000, a
  month and a day of two digits each.
\<close>

definition digit_char :: "nat \<Rightarrow> char" where
  "digit_char n = char_of (48 + n)"

definition two_digits :: "nat \<Rightarrow> string" where
  "two_digits n = [digit_char (n div 10), digit_char (n mod 10)]"

definition iso_date :: "nat \<Rightarrow> nat \<Rightarrow> nat \<Rightarrow> string" where
  "iso_date y m d =
     two_digits (y div 100) @ two_digits (y mod 100) @ ''-'' @ two_digits m @ ''-''
     @ two_digits d"

text \<open>
  The specification's tie-break of \<open>list\<close>: of two records with the same date, the
  one inserted later (the larger \<open>id\<close>) comes first.
\<close>

definition spec_ties_newest_first :: "Receipt list \<Rightarrow> bool" where
  "spec_ties_newest_first out =
     sorted_wrt (\<lambda>r r'. date r \<noteq> date r' \<or> id' r' < id' r) out"

section \<open>The extraction client (services/gemini)\<close>

subsection \<open>\<open>JSON.parse\<close>\<close>

text \<open>
  A JSON value.  An object keeps its members in the order of the text; where a name
  occurs twice the later member is the one a property access finds.
\<close>

datatype json =
    JNull
  | JBool bool
  | JNumber real
  | JString string
  | JArray "json list"
  | JObject "(string \<times> json) list"

text \<open>
  The built-in \<open>JSON.parse\<close>, by recursive descent over the JSON grammar.  A number is
  \<open>-? (0 | [1-9][0-9]*) (. [0-9]+)? ([eE] [+-]? [0-9]+)?\<close>; a string may not hold a
  control character, and its escape \<open>\uXXXX\<close> is written out in UTF-8 (the two
  halves of a surrogate pair each on its own).
\<close>

definition is_json_space :: "char \<Rightarrow> bool" where
  "is_json_space c = (c = CHR '' '' \<or> c = CHR 0x09 \<or> c = CHR 0x0A \<or> c = CHR 0x0D)"

definition number_literal :: "string \<Rightarrow> (real \<times> string) option" where
  "number_literal s =
     (let neg = (take 1 s = ''-'');
          s1 = (if neg then tl s else s);
          ds = takeWhile is_digit s1;
          ip = (if take 1 ds = ''0'' then ''0'' else ds);
          r1 = drop (length ip) s1;
          dot = (take 1 r1 = ''.'');
          fp = (if dot then takeWhile is_digit (tl r1) else []);
          r2 = (if dot then dropWhile is_digit (tl r1) else r1);
          ex = (take 1 r2 = ''e'' \<or> take 1 r2 = ''E'');
          r3 = tl r2;
          minus = (take 1 r3 = ''-'');
          r4 = (if minus \<or> take 1 r3 = ''+'' then tl r3 else r3);
          ed = takeWhile is_digit r4;
          m = real (digits_val ip) + real (digits_val fp) / 10 ^ length fp;
          e = (if ex then (if minus then - int (digits_val ed) else int (digits_val ed)) else 0)
      in if ds = [] \<or> (dot \<and> fp = []) \<or> (ex \<and> ed = []) then None
         else Some ((if neg then - m else m) * pow10 e, if ex then dropWhile is_digit r4 else r2))"

definition hex_val :: "char \<Rightarrow> nat option" where
  "hex_val c =
     (if is_digit c then Some (of_char c - 48)
      else if CHR ''a'' \<le> c \<and> c \<le> CHR ''f'' then Some (of_char c - 87)
      else if CHR ''A'' \<le> c \<and> c \<le> CHR ''F'' then Some (of_char c - 55)
      else None)"

definition hex4 :: "string \<Rightarrow> nat option" where
  "hex4 s =
     (case map hex_val s of
        [Some a, Some b, Some c, Some d] \<Rightarrow> Some (((a * 16 + b) * 16 + c) * 16 + d)
      | _ \<Rightarrow> None)"

definition utf8 :: "nat \<Rightarrow> string" where
  "utf8 n =
     (if n < 0x80 then [char_of n]
      else if n < 0x800 then [char_of (0xC0 + n div 64), char_of (0x80 + n mod 64)]
      else [char_of (0xE0 + n div 4096), char_of (0x80 + n div 64 mod 64),
            char_of (0x80 + n mod 64)])"

definition escape :: "char \<Rightarrow> char option" where
  "escape e =
     (if e = CHR 0x22 \<or> e = CHR 0x5C \<or> e = CHR ''/'' then Some e
      else if e = CHR ''b'' then Some (CHR 0x08)
      else if e = CHR ''f'' then Some (CHR 0x0C)
      else if e = CHR ''n'' then Some (CHR 0x0A)
      else if e = CHR ''r'' then Some (CHR 0x0D)
      else if e = CHR ''t'' then Some (CHR 0x09)
      else None)"

definition prepend :: "'a list \<Rightarrow> ('a list \<times> 'b) option \<Rightarrow> ('a list \<times> 'b) option" where
  "prepend xs r = (case r of None \<Rightarrow> None | Some (ys, t) \<Rightarrow> Some (xs @ ys, t))"

fun string_body :: "string \<Rightarrow> (string \<times> string) option" where
  "string_body [] = None"
| "string_body (c # s) =
     (if c = CHR 0x22 then Some ([], s)
      else if c = CHR 0x5C then
        (case s of
           [] \<Rightarrow> None
         | e # r \<Rightarrow>
             if e = CHR ''u'' then
               (case hex4 (take 4 r) of
                  None \<Rightarrow> None
                | Some n \<Rightarrow> prepend (utf8 n) (string_body (drop 4 r)))
             else
               (case escape e of
                  None \<Rightarrow> None
                | Some x \<Rightarrow> prepend [x] (string_body r)))
      else if of_char c < (0x20 :: nat) then None
      else prepend [c] (string_body s))"

definition colon :: "string \<Rightarrow> string option" where
  "colon s = (case dropWhile is_json_space s of [] \<Rightarrow> None
     | c # r \<Rightarrow> if c = CHR '':'' then Some r else None)"

text \<open>
  The parsers of a value, of the elements of an array after its bracket, and of the
  members of an object after its brace; each returns what it read and the rest of the
  text.  The tests on lengths always succeed: a parser never returns more text than it
  was given.  They make the recursion terminate by construction.
\<close>

function parse_value :: "string \<Rightarrow> (json \<times> string) option"
  and array_first :: "string \<Rightarrow> (json list \<times> string) option"
  and array_rest :: "string \<Rightarrow> (json list \<times> string) option"
  and member :: "string \<Rightarrow> ((string \<times> json) list \<times> string) option"
  and object_first :: "string \<Rightarrow> ((string \<times> json) list \<times> string) option"
  and object_rest :: "string \<Rightarrow> ((string \<times> json) list \<times> string) option"
where
  "parse_value [] = None"
| "parse_value (c # s) =
     (if is_json_space c then parse_value s
      else if c = CHR ''['' then
        (case array_first s of None \<Rightarrow> None | Some (vs, t) \<Rightarrow> Some (JArray vs, t))
      else if c = CHR ''{'' then
        (case object_first s of None \<Rightarrow> None | Some (ms, t) \<Rightarrow> Some (JObject ms, t))
      else if c = CHR 0x22 then
        (case string_body s of None \<Rightarrow> None | Some (x, t) \<Rightarrow> Some (JString x, t))
      else if take 4 (c # s) = ''true'' then Some (JBool True, drop 3 s)
      else if take 5 (c # s) = ''false'' then Some (JBool False, drop 4 s)
      else if take 4 (c # s) = ''null'' then Some (JNull, drop 3 s)
      else
        (case number_literal (c # s) of None \<Rightarrow> None | Some (x, t) \<Rightarrow> Some (JNumber x, t)))"
| "array_first [] = None"
| "array_first (c # s) =
     (if is_json_space c then array_first s
      else if c = CHR '']'' then Some ([], s)
      else
        (case parse_value (c # s) of
           None \<Rightarrow> None
         | Some (v, t) \<Rightarrow>
             if length t \<le> length s then prepend [v] (array_rest t) else None))"
| "array_rest [] = None"
| "array_rest (c # s) =
     (if is_json_space c then array_rest s
      else if c = CHR '']'' then Some ([], s)
      else if c = CHR '','' then
        (case parse_value s of
           None \<Rightarrow> None
         | Some (v, t) \<Rightarrow>
             if length t \<le> length s then prepend [v] (array_rest t) else None)
      else None)"
| "member [] = None"
| "member (c # s) =
     (if is_json_space c then member s
      else if c = CHR 0x22 then
        (case string_body s of
           None \<Rightarrow> None
         | Some (k, t) \<Rightarrow>
             (case colon t of
                None \<Rightarrow> None
              | Some u \<Rightarrow>
                  if length u \<le> length s then
                    (case parse_value u of
                       None \<Rightarrow> None
                     | Some (v, w) \<Rightarrow>
                         if length w \<le> length s then prepend [(k, v)] (object_rest w)
                         else None)
                  else None))
      else None)"
| "object_first [] = None"
| "object_first (c # s) =
     (if is_json_space c then object_first s
      else if c = CHR ''}'' then Some ([], s)
      else member (c # s))"
| "object_rest [] = None"
| "object_rest (c # s) =
     (if is_json_space c then object_rest s
      else if c = CHR ''}'' then Some ([], s)
      else if c = CHR '','' then member s
      else None)"
  by pat_completeness auto
termination
  by (relation "measure (\<lambda>x. case x of
          Inl (Inl s) \<Rightarrow> 2 * length s
        | Inl (Inr (Inl s)) \<Rightarrow> 2 * length s + 1
        | Inl (Inr (Inr s)) \<Rightarrow> 2 * length s
        | Inr (Inl s) \<Rightarrow> 2 * length s
        | Inr (Inr (Inl s)) \<Rightarrow> 2 * length s + 1
        | Inr (Inr (Inr s)) \<Rightarrow> 2 * length s)") auto

datatype exn = ApiError | SyntaxError

text \<open>\<open>JSON.parse\<close> throws a \<open>SyntaxError\<close> unless the whole text is one value.\<close>

definition JSON_parse :: "string \<Rightarrow> exn + json" where
  "JSON_parse s =
     (case parse_value s of
        None \<Rightarrow> Inl SyntaxError
      | Some (v, t) \<Rightarrow> if dropWhile is_json_space t = [] then Inr v else Inl SyntaxError)"

subsection \<open>\<open>extractReceiptData\<close>\<close>

text \<open>
  How \<open>await ai.models.generateContent(...)\<close> can end: the promise is rejected (a
  network or service error), or it resolves to a response whose \<open>text\<close> is a string or
  \<open>undefined\<close>.
\<close>

datatype api_outcome = Rejected | Resolved "string option"

text \<open>
  \<open>base64Image.split(',')[1] || base64Image\<close>: the text between the first and the
  second comma, or the whole string when there is no comma or nothing follows it.
\<close>

definition inline_data :: "string \<Rightarrow> string" where
  "inline_data base64Image =
     (case dropWhile (\<lambda>c. c \<noteq> CHR '','') base64Image of
        [] \<Rightarrow> base64Image
      | c # r \<Rightarrow>
          if takeWhile (\<lambda>c. c \<noteq> CHR '','') r = [] then base64Image
          else takeWhile (\<lambda>c. c \<noteq> CHR '','') r)"

definition try_catch :: "exn + 'a \<Rightarrow> (exn \<Rightarrow> exn + 'a) \<Rightarrow> exn + 'a" where
  "try_catch block handler = (case block of Inl e \<Rightarrow> handler e | Inr x \<Rightarrow> Inr x)"

text \<open>
  \<open>extractReceiptData\<close>.  The service is a parameter: \<open>generateContent\<close> maps the image
  data of the request (its model, prompt and schema are fixed) to the outcome of the
  call.  The result is \<open>Inl\<close> when the function throws to its caller.  The cast
  \<open>as ExtractedReceipt\<close> is a type annotation and does nothing when the code runs.
\<close>

definition extractReceiptData :: "(string \<Rightarrow> api_outcome) \<Rightarrow> string \<Rightarrow> exn + json" where
  "extractReceiptData generateContent base64Image =
     try_catch
       (case generateContent (inline_data base64Image) of
          Rejected \<Rightarrow> Inl ApiError
        | Resolved response_text \<Rightarrow>
            (case response_text of
               None \<Rightarrow> Inr JNull
             | Some t \<Rightarrow> if t = [] then Inr JNull else JSON_parse t))
       (\<lambda>error. Inr JNull)"

text \<open>
  The \<open>responseSchema\<close> of the request: an object whose \<open>merchant\<close>, \<open>date\<close>,
  \<open>currency\<close> and \<open>category\<close> are strings and whose \<open>amount\<close> is a number, all required;
  \<open>tax\<close>, when there, is a number.
\<close>

definition property :: "(string \<times> json) list \<Rightarrow> string \<Rightarrow> json option" where
  "property ms k = map_of (rev ms) k"

definition is_STRING :: "json option \<Rightarrow> bool" where
  "is_STRING v = (case v of Some (JString x) \<Rightarrow> True | _ \<Rightarrow> False)"

definition is_NUMBER :: "json option \<Rightarrow> bool" where
  "is_NUMBER v = (case v of Some (JNumber x) \<Rightarrow> True | _ \<Rightarrow> False)"

definition responseSchema :: "json \<Rightarrow> bool" where
  "responseSchema v =
     (case v of
        JObject ms \<Rightarrow>
          is_STRING (property ms ''merchant'') \<and> is_STRING (property ms ''date'')
          \<and> is_NUMBER (property ms ''amount'')
          \<and> (property ms ''tax'' = None \<or> is_NUMBER (property ms ''tax''))
          \<and> is_STRING (property ms ''currency'') \<and> is_STRING (property ms ''category'')
      | _ \<Rightarrow> False)"

section \<open>Sample data\<close>

text \<open>Concrete values at which the theorems below are instantiated.\<close>

definition receipt_no :: "nat \<Rightarrow> string \<Rightarrow> string \<Rightarrow> real \<Rightarrow> real js_field \<Rightarrow> Receipt" where
  "receipt_no n m d a t =
     \<lparr>merchant = m, date = d, amount = a, tax = t, currency = ''USD'',
      category = ''Other'', image_url = Null, id' = n,
      created_at = ''2024-03-09 10:00:00''\<rparr>"

definition seven_receipts :: "Receipt list" where
  "seven_receipts =
     [receipt_no 7 ''Grocer'' ''2024-03-07'' 70 Null,
      receipt_no 6 ''Florist'' ''2024-03-06'' 60 (Val 4),
      receipt_no 5 ''Eatery'' ''2024-03-05'' 50 Null,
      receipt_no 4 ''Diner'' ''2024-03-04'' 40 Null,
      receipt_no 3 ''Cinema'' ''2024-03-03'' 30 (Val 2),
      receipt_no 2 ''Bakery'' ''2024-03-02'' 20 Null,
      receipt_no 1 ''Airline'' ''2024-03-01'' 10 Null]"

definition cafe_luna :: ExtractedReceipt where
  "cafe_luna =
     \<lparr>merchant = ''Cafe Luna'', date = ''2024-03-01'', amount = Num 42.5,
      tax = Undefined, currency = ''USD'', category = ''Food & Drinks''\<rparr>"

definition snapshot :: string where
  "snapshot = ''data:image/jpeg;base64,/9j/4AAQSkZJRg''"

text \<open>A request body with every property but \<open>currency\<close>.\<close>

definition body_without_currency :: body where
  "body_without_currency =
     \<lparr>merchant = Val ''Cafe Luna'', date = Val ''2024-03-01'', amount = Val 42.5,
      tax = Null, currency = Undefined, category = Val ''Food & Drinks'',
      image_url = Val snapshot\<rparr>"

text \<open>
  The default form after the user has typed \<open>-5\<close> into the amount input and \<open>10\<close> into
  the tax input; the merchant input is left empty.
\<close>

definition odd_form :: ExtractedReceipt where
  "odd_form = onChange_tax (onChange_amount (seedForm ''2024-03-09'' None) ''-5'') ''10''"

definition empty_db :: Database where
  "empty_db = \<lparr>rows = [], last_id = 0\<rparr>"

text \<open>A table of two receipts with the same date.\<close>

definition same_day_db :: Database where
  "same_day_db =
     \<lparr>rows = [receipt_no 1 ''Bakery'' ''2024-03-02'' 20 Null,
              receipt_no 2 ''Cinema'' ''2024-03-02'' 30 Null],
      last_id = 2\<rparr>"

text \<open>The state of \<open>App\<close> while the extraction of a snapshot is outstanding.\<close>

definition extracting_App :: App where
  "extracting_App =
     \<lparr>state = SCANNING, currentScan = None, isScanning = True, progress = 10,
      extracting = [snapshot], settling = [], saving = 0\<rparr>"

definition stored_seven :: Database where
  "stored_seven = \<lparr>rows = rev seven_receipts, last_id = 7\<rparr>"

text \<open>A response text that conforms to the schema, with no \<open>tax\<close>.\<close>

definition cafe_luna_response :: string where
  \<open>cafe_luna_response =
     ''{"merchant":"Cafe Luna","date":"2024-03-01","amount":42.50,"currency":"USD","category":"Food & Drinks"}''\<close>

text \<open>
  A service that answers the image data of \<open>snapshot\<close> with that text and rejects
  every other request.
\<close>

definition sample_service :: "string \<Rightarrow> api_outcome" where
  "sample_service d =
     (if d = ''/9j/4AAQSkZJRg'' then Resolved (Some cafe_luna_response) else Rejected)"

text \<open>
  At most one capture is under way at a time, and \<open>isScanning\<close> says whether one is:
  an invariant of the workflow.
\<close>

definition one_capture :: "App \<Rightarrow> bool" where
  "one_capture s =
     (length (extracting s) + length (settling s) \<le> 1
      \<and> isScanning s = (extracting s \<noteq> [] \<or> settling s \<noteq> []))"

section \<open>Aggregation: theorems\<close>

lemma foldl_totalTax_step:
  "foldl totalTax_step a rs = a + sum_list (map spec_taxFor rs)"
  by (induction rs arbitrary: a)
     (simp_all add: totalTax_step_def spec_taxFor_def split: js_field.splits)

lemma foldl_amount:
  "foldl (\<lambda>acc r. acc + amount r) a rs = a + sum_list (map amount (rs :: Receipt list))"
  by (induction rs arbitrary: a) simp_all

lemma total_spec: "total' rs = spec_total rs"
  by (simp add: total'_def spec_total_def foldl_amount)

text \<open>
  Claim C1.  For every list of records, the tax estimate that the list view computes
  is the sum over the records of \<open>taxFor\<close>, where \<open>taxFor r\<close> is the record's tax when
  the tax is present (neither \<open>undefined\<close> nor \<open>null\<close>) and \<open>amount - amount / 1.07\<close>
  when it is absent.  Numbers are reals here, so the rounding of each addition is left
  out.
\<close>

theorem totalTax_is_sum_of_taxFor: "totalTax rs = spec_taxEstimate rs"
  by (simp add: totalTax_def spec_taxEstimate_def foldl_totalTax_step)

text \<open>
  At a record of 42.50 without tax and a record with a tax of 2: the estimate is
  \<open>42.5 - 42.5 / 1.07 + 2\<close>, and \<open>42.5 - 42.5 / 1.07 = 595 / 214\<close> (about 2.78).
\<close>

theorem totalTax_is_sum_of_taxFor_witness:
  "totalTax [receipt_no 1 ''Cafe Luna'' ''2024-03-01'' 42.5 Null,
             receipt_no 2 ''Cinema'' ''2024-03-03'' 30 (Val 2)] = 595 / 214 + 2"
  using totalTax_is_sum_of_taxFor
    [of "[receipt_no 1 ''Cafe Luna'' ''2024-03-01'' 42.5 Null,
          receipt_no 2 ''Cinema'' ''2024-03-03'' 30 (Val 2)]"]
  by (simp add: spec_taxEstimate_def spec_taxFor_def receipt_no_def)

text \<open>
  Claim C10.  For every list of records the average is the total divided by the number
  of records, and 0 for the empty list, where nothing is divided: the result is always
  a finite number, never the NaN that \<open>0 / 0\<close> would be.  The average of two records
  with amounts 10 and 20 is 15.
\<close>

theorem avg_is_total_over_count:
  "avg rs = Num (spec_average rs) \<and> avg [] = Num 0
   \<and> avg [a\<lparr>amount := 10\<rparr>, b\<lparr>amount := 20\<rparr>] = Num 15"
  by (simp add: avg_def js_div_def spec_average_def total_spec spec_total_def)

theorem avg_is_total_over_count_witness:
  "avg seven_receipts = Num 40
   \<and> avg [receipt_no 1 ''Airline'' ''2024-03-01'' 10 Null,
           receipt_no 2 ''Bakery'' ''2024-03-02'' 20 Null] = Num 15"
  using avg_is_total_over_count [of seven_receipts]
    avg_is_total_over_count [of "[receipt_no 1 ''Airline'' ''2024-03-01'' 10 Null,
      receipt_no 2 ''Bakery'' ''2024-03-02'' 20 Null]"]
  by (simp add: spec_average_def spec_total_def seven_receipts_def receipt_no_def)

text \<open>
  Claim C6.  For a list of at least five records the chart data are exactly five
  (merchant, amount) pairs, the first five records in reverse order: position \<open>i\<close> of
  the chart is position \<open>4 - i\<close> of the list, so position 0 is position 4.  For a
  shorter list they are all the records, reversed.
\<close>

theorem chartData_window:
  "(5 \<le> length rs \<longrightarrow>
      length (chartData rs) = 5
      \<and> chartData rs = map (\<lambda>r. (merchant r, amount r)) (rev (take 5 rs))
      \<and> (\<forall>i<5. chartData rs ! i = (merchant (rs ! (4 - i)), amount (rs ! (4 - i)))))
   \<and> (length rs < 5 \<longrightarrow> chartData rs = map (\<lambda>r. (merchant r, amount r)) (rev rs))"
  by (auto simp: chartData_def rev_nth)

text \<open>Seven records, newest first, and the two newest of them alone.\<close>

theorem chartData_window_witness:
  "length (chartData seven_receipts) = 5
   \<and> chartData seven_receipts ! 0 = (''Cinema'', 30)
   \<and> chartData seven_receipts ! 4 = (''Grocer'', 70)
   \<and> chartData (take 2 seven_receipts) = [(''Florist'', 60), (''Grocer'', 70)]"
  using chartData_window [of seven_receipts] chartData_window [of "take 2 seven_receipts"]
  by (simp add: seven_receipts_def receipt_no_def)

section \<open>The review form: theorems\<close>

text \<open>
  Claim C7.  For every extraction result \<open>X\<close> that is not \<open>null\<close> and every image, seeding
  the form from \<open>X\<close> and confirming without an edit yields a record whose merchant,
  date, amount, tax, currency and category are those of \<open>X\<close> and whose \<open>image_url\<close> is
  the image.
\<close>

theorem finalize_seedForm_roundtrip:
  "finalize (seedForm today (Some X)) img =
     \<lparr>merchant = merchant X, date = date X, amount = amount X, tax = tax X,
      currency = currency X, category = category X, image_url = img\<rparr>"
  by (simp add: finalize_def seedForm_def)

theorem finalize_seedForm_roundtrip_witness:
  "finalize (seedForm ''2024-03-09'' (Some cafe_luna)) snapshot =
     \<lparr>merchant = ''Cafe Luna'', date = ''2024-03-01'', amount = Num 42.5,
      tax = Undefined, currency = ''USD'', category = ''Food & Drinks'',
      image_url = snapshot\<rparr>"
  using finalize_seedForm_roundtrip [of "''2024-03-09''" cafe_luna snapshot]
  by (simp add: cafe_luna_def)

text \<open>
  The two numeric inputs differ.  The tax input stores \<open>parseFloat(v) || 0\<close>, so a
  value that does not parse becomes 0; the amount input stores \<open>parseFloat(v)\<close>, so a
  value that does not parse is stored as NaN.
\<close>

lemma onChange_tax_unparsable:
  "parseFloat v = NaN \<Longrightarrow> tax (onChange_tax formData v) = Val (Num 0)"
  by (simp add: onChange_tax_def or_zero_def)

lemma onChange_amount_unparsable:
  "parseFloat v = NaN \<Longrightarrow> amount (onChange_amount formData v) = NaN"
  by (simp add: onChange_amount_def)

text \<open>
  Claim C3 says that an input that does not parse is coerced to 0 in both numeric
  fields.  The code does so for the tax and not for the amount: when the user clears
  the amount input of the default form its value is the empty string, which does not
  parse, and the form then holds NaN as its amount; the same edit of the tax input
  stores 0.
\<close>

theorem cleared_amount_is_NaN:
  "parseFloat '''' = NaN
   \<and> amount (onChange_amount (seedForm ''2024-03-09'' None) '''') = NaN
   \<and> tax (onChange_tax (seedForm ''2024-03-09'' None) '''') = Val (Num 0)"
  by (simp add: parseFloat_def onChange_amount_def onChange_tax_def or_zero_def)

section \<open>The capture workflow: theorems\<close>

text \<open>
  Every state that the workflow reaches from its initial state has at most one capture
  under way, so the order in which outstanding calls resolve never matters.
\<close>

lemma one_capture_step: "one_capture s \<Longrightarrow> step s e = Some s' \<Longrightarrow> one_capture s'"
  by (cases e) (auto simp: one_capture_def split: if_splits list.splits nat.splits)

lemma one_capture_run: "one_capture s \<Longrightarrow> run s es = Some s' \<Longrightarrow> one_capture s'"
  by (induction es arbitrary: s) (auto split: option.splits dest: one_capture_step)

lemma one_capture_reachable: "run initial_App es = Some s \<Longrightarrow> one_capture s"
  by (rule one_capture_run [of initial_App]) (simp_all add: one_capture_def initial_App_def)

text \<open>The callback of the timeout writes whatever the state is.\<close>

lemma step_Settled_any_state:
  "settling s = scan # rest \<Longrightarrow>
   step s Settled = Some (s\<lparr>currentScan := Some scan, isScanning := False,
                             state := REVIEW_DETAIL, settling := rest\<rparr>)"
  by simp

text \<open>
  Claim C2 says that a result arriving after the user has closed the scanner is
  discarded.  It is not: the user adds a receipt, captures a snapshot, closes the
  scanner while the extraction is outstanding; the call then resolves and its timeout
  fires, and the machine is in \<open>REVIEW_DETAIL\<close> with the late result as its current
  scan, which is what seeds the review form.
\<close>

theorem close_does_not_discard_extraction:
  "run initial_App [Add, Capture snapshot, Close, Extracted (Some cafe_luna), Settled] =
     Some \<lparr>state = REVIEW_DETAIL, currentScan = Some (snapshot, Some cafe_luna),
           isScanning = False, progress = 100, extracting = [], settling = [],
           saving = 0\<rparr>"
  by (simp add: initial_App_def)

text \<open>
  Claim C2, as the code has it.  When the user closes the scanner while an extraction
  call is outstanding, the machine moves to \<open>LIST\<close>; nothing guards the late result,
  so once the call has resolved and its settling delay has passed, the machine is in
  \<open>REVIEW_DETAIL\<close> and its current scan is the captured image with that result.
\<close>

theorem stale_extraction_is_applied:
  assumes "state s = SCANNING" and "extracting s = base64 # rest" and "settling s = []"
  shows "run s [Close] = Some (s\<lparr>state := LIST\<rparr>)
     \<and> run s [Close, Extracted extracted, Settled] =
         Some (s\<lparr>state := REVIEW_DETAIL, currentScan := Some (base64, extracted),
                  isScanning := False, progress := 100, extracting := rest,
                  settling := []\<rparr>)"
  using assms by simp

text \<open>At the state after a capture, with an extraction that fails.\<close>

theorem stale_extraction_is_applied_witness:
  "run extracting_App [Close] = Some (extracting_App\<lparr>state := LIST\<rparr>)
   \<and> run extracting_App [Close, Extracted None, Settled] =
       Some \<lparr>state = REVIEW_DETAIL, currentScan = Some (snapshot, None),
             isScanning = False, progress = 100, extracting = [], settling = [],
             saving = 0\<rparr>"
  using stale_extraction_is_applied [of extracting_App snapshot "[]" None]
  by (simp add: extracting_App_def)

section \<open>The server: theorems\<close>

subsection \<open>Create\<close>

text \<open>
  What the route does with a body: it succeeds exactly when the merchant, the date, the
  amount and the category are given and not \<open>null\<close>, and then appends one row.
\<close>

lemma post_receipts_eq:
  "post_receipts now db b =
     (case (merchant b, date b, amount b, category b) of
        (Val m, Val d, Val a, Val c) \<Rightarrow>
          (Json_id (Suc (last_id db)),
           \<lparr>rows = rows db @
              [\<lparr>merchant = m, date = d, amount = a,
                tax = (case tax b of Val t \<Rightarrow> Val t | Undefined \<Rightarrow> Null | Null \<Rightarrow> Null),
                currency = or_USD (currency b), category = c,
                image_url = (case image_url b of Val u \<Rightarrow> Val u | Undefined \<Rightarrow> Null
                             | Null \<Rightarrow> Null),
                id' = Suc (last_id db), created_at = now\<rparr>],
            last_id = Suc (last_id db)\<rparr>)
      | _ \<Rightarrow> (Status_500 ''Failed to save receipt'', db))"
  by (simp add: post_receipts_def run_insert_def and_then_def bind_value_def not_null_def
      nullable_def Let_def split: js_field.split)

text \<open>A create that fails persists nothing.\<close>

lemma post_receipts_Status_500:
  "post_receipts now db b = (Status_500 msg, db') \<Longrightarrow> db' = db"
  by (auto simp: post_receipts_eq split: js_field.splits)

text \<open>
  Claim C4 says that a create without a currency persists the currency \<open>INR\<close>.  The
  route substitutes \<open>USD\<close>, as the default of the column does: a body with every
  property but the currency is persisted with the currency \<open>USD\<close>.
\<close>

theorem absent_currency_is_not_INR:
  "post_receipts ''2024-03-09 10:00:00'' empty_db body_without_currency =
     (Json_id 1,
      \<lparr>rows = [\<lparr>merchant = ''Cafe Luna'', date = ''2024-03-01'', amount = 42.5, tax = Null,
                currency = ''USD'', category = ''Food & Drinks'', image_url = Val snapshot,
                id' = 1, created_at = ''2024-03-09 10:00:00''\<rparr>],
       last_id = 1\<rparr>)
   \<and> ''USD'' \<noteq> ''INR''"
  by (simp add: post_receipts_def run_insert_def and_then_def bind_value_def not_null_def
      nullable_def or_USD_def empty_db_def body_without_currency_def)

text \<open>
  Claim C4, as the code has it.  For every create call in which the currency is
  absent: when the merchant, the date, the amount and the category are given and not
  \<open>null\<close>, the call succeeds and the record it persists has the currency \<open>USD\<close>, the
  fallback code of the server; otherwise the call is refused and nothing is persisted.
\<close>

theorem absent_currency_persisted_as_USD:
  assumes "currency b = Undefined"
  shows "post_receipts now db b =
     (case (merchant b, date b, amount b, category b) of
        (Val m, Val d, Val a, Val c) \<Rightarrow>
          (Json_id (Suc (last_id db)),
           \<lparr>rows = rows db @
              [\<lparr>merchant = m, date = d, amount = a,
                tax = (case tax b of Val t \<Rightarrow> Val t | Undefined \<Rightarrow> Null | Null \<Rightarrow> Null),
                currency = ''USD'', category = c,
                image_url = (case image_url b of Val u \<Rightarrow> Val u | Undefined \<Rightarrow> Null
                             | Null \<Rightarrow> Null),
                id' = Suc (last_id db), created_at = now\<rparr>],
            last_id = Suc (last_id db)\<rparr>)
      | _ \<Rightarrow> (Status_500 ''Failed to save receipt'', db))"
  using assms by (simp add: post_receipts_eq or_USD_def split: js_field.split)

text \<open>
  A body with every property but the currency, and the same body without a merchant.
\<close>

theorem absent_currency_persisted_as_USD_witness:
  "post_receipts ''2024-03-09 10:00:00'' same_day_db body_without_currency =
     (Json_id 3,
      \<lparr>rows = rows same_day_db @
         [\<lparr>merchant = ''Cafe Luna'', date = ''2024-03-01'', amount = 42.5, tax = Null,
           currency = ''USD'', category = ''Food & Drinks'', image_url = Val snapshot,
           id' = 3, created_at = ''2024-03-09 10:00:00''\<rparr>],
       last_id = 3\<rparr>)
   \<and> post_receipts ''2024-03-09 10:00:00'' same_day_db
        (body_without_currency\<lparr>merchant := Undefined\<rparr>) =
       (Status_500 ''Failed to save receipt'', same_day_db)"
  using absent_currency_persisted_as_USD
      [of body_without_currency "''2024-03-09 10:00:00''" same_day_db]
    absent_currency_persisted_as_USD
      [of "body_without_currency\<lparr>merchant := Undefined\<rparr>" "''2024-03-09 10:00:00''"
          same_day_db]
  by (simp add: body_without_currency_def same_day_db_def)

text \<open>The form in which the user has typed an amount of -5 and a tax of 10.\<close>

lemma odd_form_eq:
  "odd_form = \<lparr>merchant = '''', date = ''2024-03-09'', amount = Num (- 5),
     tax = Val (Num 10), currency = ''INR'', category = ''Other''\<rparr>"
  by code_simp

text \<open>
  Claim C5 says that every record persisted by a successful create has a non-negative
  amount, a tax no larger than the amount, and a merchant that is not empty.  Neither
  the form nor the route checks any of the three: confirming the form above sends a
  body that the route accepts, and the record it persists has an empty merchant, the
  amount -5 and the tax 10.
\<close>

theorem create_accepts_invalid_record:
  "post_receipts ''2024-03-09 10:00:00'' empty_db (request_body (finalize odd_form snapshot)) =
     (Json_id 1,
      \<lparr>rows = [\<lparr>merchant = '''', date = ''2024-03-09'', amount = - 5, tax = Val 10,
                currency = ''INR'', category = ''Other'', image_url = Val snapshot,
                id' = 1, created_at = ''2024-03-09 10:00:00''\<rparr>],
       last_id = 1\<rparr>)
   \<and> \<not> spec_invariants
         \<lparr>merchant = '''', date = ''2024-03-09'', amount = - 5, tax = Val 10,
          currency = ''INR'', category = ''Other'', image_url = Val snapshot,
          id' = 1, created_at = ''2024-03-09 10:00:00''\<rparr>"
  by (simp add: odd_form_eq post_receipts_def run_insert_def and_then_def bind_value_def
      not_null_def nullable_def or_USD_def empty_db_def request_body_def finalize_def
      json_number_def spec_invariants_def)

text \<open>
  Claim C5, as the code has it.  A create succeeds exactly when the merchant, the date,
  the amount and the category are given and not \<open>null\<close>; otherwise it is refused and
  persists nothing.  The record a successful create persists holds the submitted
  merchant, date, amount and category unchanged, the submitted tax and image, or \<open>null\<close>
  where they are absent, and the submitted currency, or \<open>USD\<close> where it is absent,
  \<open>null\<close> or empty.  Create checks nothing else: the persisted record has a
  non-negative amount, a tax no larger than the amount and a merchant that is not
  empty exactly when the submitted values do.
\<close>

theorem create_persists_submitted_values:
  "post_receipts now db b =
     (case (merchant b, date b, amount b, category b) of
        (Val m, Val d, Val a, Val c) \<Rightarrow>
          (Json_id (Suc (last_id db)),
           \<lparr>rows = rows db @
              [\<lparr>merchant = m, date = d, amount = a,
                tax = (case tax b of Val t \<Rightarrow> Val t | Undefined \<Rightarrow> Null | Null \<Rightarrow> Null),
                currency = (case currency b of Val s \<Rightarrow> if s = [] then ''USD'' else s
                            | Undefined \<Rightarrow> ''USD'' | Null \<Rightarrow> ''USD''),
                category = c,
                image_url = (case image_url b of Val u \<Rightarrow> Val u | Undefined \<Rightarrow> Null
                             | Null \<Rightarrow> Null),
                id' = Suc (last_id db), created_at = now\<rparr>],
            last_id = Suc (last_id db)\<rparr>)
      | _ \<Rightarrow> (Status_500 ''Failed to save receipt'', db))
   \<and> (\<forall>n db' r. post_receipts now db b = (Json_id n, db') \<and> rows db' = rows db @ [r] \<longrightarrow>
         spec_invariants r =
           (\<exists>m a. merchant b = Val m \<and> m \<noteq> [] \<and> amount b = Val a \<and> 0 \<le> a
              \<and> (case tax b of Val t \<Rightarrow> t \<le> a | Undefined \<Rightarrow> True | Null \<Rightarrow> True)))"
proof (intro conjI allI impI)
  show "post_receipts now db b =
     (case (merchant b, date b, amount b, category b) of
        (Val m, Val d, Val a, Val c) \<Rightarrow>
          (Json_id (Suc (last_id db)),
           \<lparr>rows = rows db @
              [\<lparr>merchant = m, date = d, amount = a,
                tax = (case tax b of Val t \<Rightarrow> Val t | Undefined \<Rightarrow> Null | Null \<Rightarrow> Null),
                currency = (case currency b of Val s \<Rightarrow> if s = [] then ''USD'' else s
                            | Undefined \<Rightarrow> ''USD'' | Null \<Rightarrow> ''USD''),
                category = c,
                image_url = (case image_url b of Val u \<Rightarrow> Val u | Undefined \<Rightarrow> Null
                             | Null \<Rightarrow> Null),
                id' = Suc (last_id db), created_at = now\<rparr>],
            last_id = Suc (last_id db)\<rparr>)
      | _ \<Rightarrow> (Status_500 ''Failed to save receipt'', db))"
    by (simp add: post_receipts_eq or_USD_def split: js_field.split)
next
  fix n db' r
  assume "post_receipts now db b = (Json_id n, db') \<and> rows db' = rows db @ [r]"
  then show "spec_invariants r =
      (\<exists>m a. merchant b = Val m \<and> m \<noteq> [] \<and> amount b = Val a \<and> 0 \<le> a
         \<and> (case tax b of Val t \<Rightarrow> t \<le> a | Undefined \<Rightarrow> True | Null \<Rightarrow> True))"
    by (auto simp: post_receipts_eq spec_invariants_def split: js_field.splits)
qed

text \<open>
  The form seeded from an extraction without a tax and confirmed without an edit: its
  body has no \<open>tax\<close>, and the record is persisted with the tax \<open>null\<close>.  The same body
  with the amount \<open>null\<close>, as a form whose amount is NaN sends it, is refused.
\<close>

theorem create_persists_submitted_values_witness:
  "post_receipts ''2024-03-09 10:00:00'' empty_db
      (request_body (finalize (seedForm ''2024-03-09'' (Some cafe_luna)) snapshot)) =
     (Json_id 1,
      \<lparr>rows = [\<lparr>merchant = ''Cafe Luna'', date = ''2024-03-01'', amount = 42.5, tax = Null,
                currency = ''USD'', category = ''Food & Drinks'', image_url = Val snapshot,
                id' = 1, created_at = ''2024-03-09 10:00:00''\<rparr>],
       last_id = 1\<rparr>)
   \<and> spec_invariants
         \<lparr>merchant = ''Cafe Luna'', date = ''2024-03-01'', amount = 42.5, tax = Null,
          currency = ''USD'', category = ''Food & Drinks'', image_url = Val snapshot,
          id' = 1, created_at = ''2024-03-09 10:00:00''\<rparr>
   \<and> post_receipts ''2024-03-09 10:00:00'' empty_db
        (request_body (finalize (onChange_amount cafe_luna '''') snapshot)) =
       (Status_500 ''Failed to save receipt'', empty_db)"
  using create_persists_submitted_values
      [of "''2024-03-09 10:00:00''" empty_db
          "request_body (finalize (seedForm ''2024-03-09'' (Some cafe_luna)) snapshot)"]
    create_persists_submitted_values
      [of "''2024-03-09 10:00:00''" empty_db
          "request_body (finalize (onChange_amount cafe_luna '''') snapshot)"]
  by (simp add: request_body_def finalize_def seedForm_def cafe_luna_def empty_db_def
      json_number_def onChange_amount_def parseFloat_def spec_invariants_def)

subsection \<open>List\<close>

lemma desc_iff_sorted_rev:
  "sorted_wrt (\<lambda>r r'. date r' \<le> date r) out \<longleftrightarrow> sorted (rev (map date (out :: Receipt list)))"
  by (simp add: sorted_wrt_rev sorted_wrt_map flip: rev_map)

text \<open>The dates of an answer are the dates of the table, sorted and reversed.\<close>

lemma get_receipts_dates:
  assumes "get_receipts db out"
  shows "map date out = rev (sort (map date (rows db)))"
proof -
  from assms have m: "mset out = mset (rows db)"
    and s: "sorted (rev (map date out))"
    by (simp_all add: get_receipts_def desc_iff_sorted_rev)
  from m have "mset (rev (map date out)) = mset (map date (rows db))"
    by simp
  then have "sort (map date (rows db)) = rev (map date out)"
    using s by (rule properties_for_sort)
  then show ?thesis by simp
qed

text \<open>The query has an answer: the rows sorted by date, reversed.\<close>

lemma get_receipts_exists: "get_receipts db (rev (sort_key date (rows db)))"
  by (simp add: get_receipts_def desc_iff_sorted_rev rev_map)

lemma get_receipts_nth:
  assumes "get_receipts db out" and "i < j" and "j < length out"
  shows "date (out ! j) \<le> date (out ! i)"
  using assms by (auto simp: get_receipts_def sorted_wrt_iff_nth_less)

text \<open>
  The column is compared as text.  For dates in the form \<open>YYYY-MM-DD\<close> that is the
  order of the calendar, so that descending means most recent first; for dates in
  another form, which the extraction may deliver and the form accepts, it need not be.
\<close>

lemma of_char_digit_char: "a < 10 \<Longrightarrow> of_char (digit_char a) = 48 + a"
  unfolding digit_char_def by (simp add: of_char_of)

lemma digit_char_less: "a < 10 \<Longrightarrow> b < 10 \<Longrightarrow> digit_char a < digit_char b \<longleftrightarrow> a < b"
  unfolding less_char_def by (simp only: of_char_digit_char nat_add_left_cancel_less)

lemma digit_char_eq:
  assumes "a < 10" and "b < 10"
  shows "digit_char a = digit_char b \<longleftrightarrow> a = b"
proof
  assume "digit_char a = digit_char b"
  then have "(of_char (digit_char a) :: nat) = of_char (digit_char b)"
    by (rule arg_cong)
  then show "a = b"
    by (simp only: of_char_digit_char [OF assms(1)] of_char_digit_char [OF assms(2)]
        add_left_cancel)
next
  assume "a = b"
  then show "digit_char a = digit_char b"
    by (rule arg_cong)
qed

lemma less_by_digits:
  fixes n n' k :: nat
  shows "n < n' \<longleftrightarrow> n div k < n' div k \<or> n div k = n' div k \<and> n mod k < n' mod k"
proof (cases "n div k = n' div k")
  case True
  have "n = k * (n div k) + n mod k" and "n' = k * (n' div k) + n' mod k"
    by simp_all
  with True have "n < n' \<longleftrightarrow> n mod k < n' mod k"
    by (metis nat_add_left_cancel_less)
  with True show ?thesis by simp
next
  case False
  have "n div k < n' div k \<Longrightarrow> n < n'"
    using div_le_mono [of n' n k] by (rule_tac ccontr) simp
  moreover have "n < n' \<Longrightarrow> n div k \<le> n' div k"
    by (simp add: div_le_mono)
  ultimately show ?thesis
    using False by auto
qed

lemma eq_by_digits:
  fixes n n' k :: nat
  shows "n = n' \<longleftrightarrow> n div k = n' div k \<and> n mod k = n' mod k"
  by (metis div_mult_mod_eq)

lemma two_digits_le:
  assumes "n < 100" and "n' < 100"
  shows "two_digits n @ xs \<le> two_digits n' @ ys \<longleftrightarrow> n < n' \<or> n = n' \<and> xs \<le> ys"
proof -
  have d: "n div 10 < 10" "n mod 10 < 10" "n' div 10 < 10" "n' mod 10 < 10"
    using assms by simp_all
  show ?thesis
    unfolding less_by_digits [of n n' 10] eq_by_digits [of n n' 10] two_digits_def
    by (simp only: append_Cons append_Nil Cons_le_Cons digit_char_less d digit_char_eq)
       blast
qed

lemma two_digits_le_end:
  assumes "n < 100" and "n' < 100"
  shows "two_digits n \<le> two_digits n' \<longleftrightarrow> n \<le> n'"
  using two_digits_le [OF assms, of "[]" "[]"] by (simp add: le_less)

lemma dash_le: "''-'' @ xs \<le> ''-'' @ ys \<longleftrightarrow> xs \<le> ys"
  by simp

lemma iso_date_le:
  assumes "y < 10000" "y' < 10000" "m < 100" "m' < 100" "d < 100" "d' < 100"
  shows "iso_date y m d \<le> iso_date y' m' d' \<longleftrightarrow>
           y < y' \<or> y = y' \<and> (m < m' \<or> m = m' \<and> d \<le> d')"
proof -
  have h: "y div 100 < 100" "y mod 100 < 100" "y' div 100 < 100" "y' mod 100 < 100"
    using assms by simp_all
  show ?thesis
    unfolding less_by_digits [of y y' 100] eq_by_digits [of y y' 100] iso_date_def
    by (simp only: two_digits_le [OF h(1) h(3)] two_digits_le [OF h(2) h(4)] dash_le
          two_digits_le [OF assms(3) assms(4)] two_digits_le_end [OF assms(5) assms(6)])
       blast
qed

lemma iso_date_example: "iso_date 2024 3 1 = ''2024-03-01''"
  by code_simp

text \<open>
  Two dates as a receipt may print them: the later one is the smaller string, and
  would be listed last.
\<close>

lemma printed_dates_example: "''03/01/2024'' < ''12/31/2023''"
  by simp

text \<open>
  Claim C8 says that records with equal dates are listed newest first.  The query has
  no second sort key: for a table of two records of the same day, the answer that lists
  them in the order of their insertion, oldest first, is an answer of the query.
\<close>

theorem ties_are_not_newest_first:
  "get_receipts same_day_db
     [receipt_no 1 ''Bakery'' ''2024-03-02'' 20 Null,
      receipt_no 2 ''Cinema'' ''2024-03-02'' 30 Null]
   \<and> \<not> spec_ties_newest_first
         [receipt_no 1 ''Bakery'' ''2024-03-02'' 20 Null,
          receipt_no 2 ''Cinema'' ''2024-03-02'' 30 Null]"
  by (simp add: get_receipts_def same_day_db_def spec_ties_newest_first_def receipt_no_def)

text \<open>The other order is an answer as well: the query does not decide between them.\<close>

lemma both_orders_of_a_tie:
  "get_receipts same_day_db
     [receipt_no 2 ''Cinema'' ''2024-03-02'' 30 Null,
      receipt_no 1 ''Bakery'' ''2024-03-02'' 20 Null]"
  by (simp add: get_receipts_def same_day_db_def receipt_no_def)

text \<open>
  Claim C8, as the code has it.  For every table the list has an answer, and every
  answer holds exactly the stored records, ordered by date descending (the dates
  compared as strings): a record never precedes one with a later date, and the
  sequence of dates is the same in every answer.  The order of records with equal
  dates is not determined.
\<close>

theorem get_receipts_date_descending:
  "(\<exists>out. get_receipts db out)
   \<and> (\<forall>out. get_receipts db out \<longrightarrow>
         mset out = mset (rows db)
         \<and> (\<forall>i j. i < j \<and> j < length out \<longrightarrow> date (out ! j) \<le> date (out ! i))
         \<and> map date out = rev (sort (map date (rows db))))"
proof (intro conjI allI impI)
  show "\<exists>out. get_receipts db out"
    using get_receipts_exists by blast
next
  fix out assume "get_receipts db out"
  then show "mset out = mset (rows db)"
    by (simp add: get_receipts_def)
next
  fix out i j assume "get_receipts db out" and "i < j \<and> j < length out"
  then show "date (out ! j) \<le> date (out ! i)"
    using get_receipts_nth by blast
next
  fix out assume "get_receipts db out"
  then show "map date out = rev (sort (map date (rows db)))"
    by (rule get_receipts_dates)
qed

lemma get_seven: "get_receipts stored_seven seven_receipts"
  by (simp add: get_receipts_def stored_seven_def) (simp add: seven_receipts_def receipt_no_def)

text \<open>Seven records stored oldest first and listed newest first.\<close>

theorem get_receipts_date_descending_witness:
  "get_receipts stored_seven seven_receipts
   \<and> mset seven_receipts = mset (rows stored_seven)
   \<and> date (seven_receipts ! 6) \<le> date (seven_receipts ! 0)
   \<and> map date seven_receipts = rev (sort (map date (rows stored_seven)))"
proof -
  have g: "get_receipts stored_seven seven_receipts"
    by (rule get_seven)
  with get_receipts_date_descending [of stored_seven]
  have a: "mset seven_receipts = mset (rows stored_seven)"
    and b: "\<forall>i j. i < j \<and> j < length seven_receipts \<longrightarrow>
              date (seven_receipts ! j) \<le> date (seven_receipts ! i)"
    and c: "map date seven_receipts = rev (sort (map date (rows stored_seven)))"
    by blast+
  have "length seven_receipts = 7"
    by (simp add: seven_receipts_def)
  with b have "date (seven_receipts ! 6) \<le> date (seven_receipts ! 0)"
    by simp
  with g a c show ?thesis
    by simp
qed

section \<open>The extraction client: theorems\<close>

lemma JSON_parse_empty_object: "JSON_parse ''{}'' = Inr (JObject [])"
  by (simp add: JSON_parse_def is_json_space_def)

lemma JSON_parse_cafe_luna:
  "JSON_parse cafe_luna_response =
     Inr (JObject
       [(''merchant'', JString ''Cafe Luna''), (''date'', JString ''2024-03-01''),
        (''amount'', JNumber 42.5), (''currency'', JString ''USD''),
        (''category'', JString ''Food & Drinks'')])"
  by code_simp

lemma cafe_luna_response_not_empty: "cafe_luna_response \<noteq> []"
  by (simp add: cafe_luna_response_def)

lemma JSON_parse_cut_short: "JSON_parse ''{'' = Inl SyntaxError"
  by (simp add: JSON_parse_def is_json_space_def)

lemma inline_data_snapshot: "inline_data snapshot = ''/9j/4AAQSkZJRg''"
  by (simp add: inline_data_def snapshot_def)

text \<open>
  Claim C9 says that a response that does not conform to the schema makes the function
  return \<open>null\<close>.  The function parses the text and returns what it has parsed; it
  never compares it with the schema.  When the service answers with the text \<open>{}\<close>,
  an object with none of the required properties, the function returns that object.
\<close>

theorem nonconforming_response_is_returned:
  "extractReceiptData (\<lambda>d. Resolved (Some ''{}'')) snapshot = Inr (JObject [])
   \<and> \<not> responseSchema (JObject [])"
  by (simp add: extractReceiptData_def try_catch_def JSON_parse_empty_object
      responseSchema_def property_def is_STRING_def)

text \<open>
  Claim C9, as the code has it.  For every image and every outcome of the call, the
  function returns and never throws to its caller.  It returns \<open>null\<close> when the call is
  rejected (a network or service error), when the response has no text or an empty
  text, and when the text is not well-formed JSON; otherwise it returns the value
  parsed from the text, whether or not that value conforms to the schema.
\<close>

theorem extractReceiptData_result:
  "extractReceiptData generateContent base64Image =
     Inr (case generateContent (inline_data base64Image) of
            Rejected \<Rightarrow> JNull
          | Resolved None \<Rightarrow> JNull
          | Resolved (Some t) \<Rightarrow>
              if t = [] then JNull
              else (case JSON_parse t of Inl e \<Rightarrow> JNull | Inr v \<Rightarrow> v))"
  by (simp add: extractReceiptData_def try_catch_def
      split: api_outcome.split option.split sum.split)

text \<open>
  A rejected call, a response without text, an empty text, a text cut short, and a
  conforming answer to the image data of the snapshot.
\<close>

theorem extractReceiptData_result_witness:
  "extractReceiptData (\<lambda>d. Rejected) snapshot = Inr JNull
   \<and> extractReceiptData (\<lambda>d. Resolved None) snapshot = Inr JNull
   \<and> extractReceiptData (\<lambda>d. Resolved (Some '''')) snapshot = Inr JNull
   \<and> extractReceiptData (\<lambda>d. Resolved (Some ''{'')) snapshot = Inr JNull
   \<and> extractReceiptData sample_service snapshot =
       Inr (JObject
         [(''merchant'', JString ''Cafe Luna''), (''date'', JString ''2024-03-01''),
          (''amount'', JNumber 42.5), (''currency'', JString ''USD''),
          (''category'', JString ''Food & Drinks'')])"
  using extractReceiptData_result [of "\<lambda>d. Rejected" snapshot]
    extractReceiptData_result [of "\<lambda>d. Resolved None" snapshot]
    extractReceiptData_result [of "\<lambda>d. Resolved (Some '''')" snapshot]
    extractReceiptData_result [of "\<lambda>d. Resolved (Some ''{'')" snapshot]
    extractReceiptData_result [of sample_service snapshot]
  by (simp add: sample_service_def inline_data_snapshot JSON_parse_cafe_luna
      JSON_parse_cut_short cafe_luna_response_not_empty)

text \<open>The conforming answer does conform.\<close>

lemma cafe_luna_conforms:
  "responseSchema (JObject
     [(''merchant'', JString ''Cafe Luna''), (''date'', JString ''2024-03-01''),
      (''amount'', JNumber 42.5), (''currency'', JString ''USD''),
      (''category'', JString ''Food & Drinks'')])"
  by (simp add: responseSchema_def property_def is_STRING_def is_NUMBER_def)

end
